theory Spec2Isabelle
  imports Complex_Main
begin

section \<open>JavaScript numbers\<close>

text \<open>
  The calculator works on JavaScript numbers.  A number is modelled as a finite value
  carrying an exact real, or one of the three special values \<open>Infinity\<close>,
  \<open>-Infinity\<close> and \<open>NaN\<close>.  The arithmetic on the special values follows
  IEEE 754 as JavaScript exposes it (\<open>0/0 = NaN\<close>, \<open>x/0 = \<plusminus>Infinity\<close>,
  \<open>Infinity - Infinity = NaN\<close>, every comparison with \<open>NaN\<close> is false).
  Two things are idealised: finite arithmetic is exact (the rounding error of a double
  and overflow to \<open>Infinity\<close> are not modelled), and \<open>-0\<close> is identified with \<open>0\<close>.
\<close>

datatype jsnum = Num real | PInf | NInf | NaN

fun js_neg :: "jsnum \<Rightarrow> jsnum" where
  "js_neg (Num a) = Num (- a)"
| "js_neg PInf = NInf"
| "js_neg NInf = PInf"
| "js_neg NaN = NaN"

instantiation jsnum :: "{plus, minus, times, inverse, ord}"
begin

fun plus_jsnum :: "jsnum \<Rightarrow> jsnum \<Rightarrow> jsnum" where
  "plus_jsnum (Num a) (Num b) = Num (a + b)"
| "plus_jsnum NaN _ = NaN"
| "plus_jsnum _ NaN = NaN"
| "plus_jsnum PInf NInf = NaN"
| "plus_jsnum NInf PInf = NaN"
| "plus_jsnum PInf _ = PInf"
| "plus_jsnum _ PInf = PInf"
| "plus_jsnum NInf _ = NInf"
| "plus_jsnum _ NInf = NInf"

definition minus_jsnum :: "jsnum \<Rightarrow> jsnum \<Rightarrow> jsnum" where
  "minus_jsnum x y = x + js_neg y"

fun times_jsnum :: "jsnum \<Rightarrow> jsnum \<Rightarrow> jsnum" where
  "times_jsnum (Num a) (Num b) = Num (a * b)"
| "times_jsnum NaN _ = NaN"
| "times_jsnum _ NaN = NaN"
| "times_jsnum (Num a) PInf = (if a = 0 then NaN else if 0 < a then PInf else NInf)"
| "times_jsnum (Num a) NInf = (if a = 0 then NaN else if 0 < a then NInf else PInf)"
| "times_jsnum PInf (Num b) = (if b = 0 then NaN else if 0 < b then PInf else NInf)"
| "times_jsnum NInf (Num b) = (if b = 0 then NaN else if 0 < b then NInf else PInf)"
| "times_jsnum PInf PInf = PInf"
| "times_jsnum PInf NInf = NInf"
| "times_jsnum NInf PInf = NInf"
| "times_jsnum NInf NInf = PInf"

fun divide_jsnum :: "jsnum \<Rightarrow> jsnum \<Rightarrow> jsnum" where
  "divide_jsnum (Num a) (Num b) =
     (if b = 0 then (if a = 0 then NaN else if 0 < a then PInf else NInf)
      else Num (a / b))"
| "divide_jsnum NaN _ = NaN"
| "divide_jsnum _ NaN = NaN"
| "divide_jsnum (Num a) PInf = Num 0"
| "divide_jsnum (Num a) NInf = Num 0"
| "divide_jsnum PInf (Num b) = (if 0 \<le> b then PInf else NInf)"
| "divide_jsnum NInf (Num b) = (if 0 \<le> b then NInf else PInf)"
| "divide_jsnum PInf PInf = NaN"
| "divide_jsnum PInf NInf = NaN"
| "divide_jsnum NInf PInf = NaN"
| "divide_jsnum NInf NInf = NaN"

definition inverse_jsnum :: "jsnum \<Rightarrow> jsnum" where
  "inverse_jsnum x = divide (Num 1) x"

fun less_jsnum :: "jsnum \<Rightarrow> jsnum \<Rightarrow> bool" where
  "less_jsnum (Num a) (Num b) = (a < b)"
| "less_jsnum NaN _ = False"
| "less_jsnum _ NaN = False"
| "less_jsnum NInf NInf = False"
| "less_jsnum NInf _ = True"
| "less_jsnum PInf _ = False"
| "less_jsnum (Num a) PInf = True"
| "less_jsnum (Num a) NInf = False"

fun less_eq_jsnum :: "jsnum \<Rightarrow> jsnum \<Rightarrow> bool" where
  "less_eq_jsnum (Num a) (Num b) = (a \<le> b)"
| "less_eq_jsnum NaN _ = False"
| "less_eq_jsnum _ NaN = False"
| "less_eq_jsnum NInf _ = True"
| "less_eq_jsnum _ PInf = True"
| "less_eq_jsnum PInf _ = False"
| "less_eq_jsnum (Num a) NInf = False"

instance ..

end

text \<open>Strict equality \<open>===\<close> on numbers: \<open>NaN\<close> equals nothing, itself included.\<close>

definition js_eq :: "jsnum \<Rightarrow> jsnum \<Rightarrow> bool" where
  "js_eq x y = (x \<noteq> NaN \<and> x = y)"

text \<open>\<open>Math.round\<close> rounds to the nearest integer, a tie towards \<open>+Infinity\<close>.\<close>

fun Math_round :: "jsnum \<Rightarrow> jsnum" where
  "Math_round (Num a) = Num (of_int \<lfloor>a + 1 / 2\<rfloor>)"
| "Math_round x = x"

fun Math_ceil :: "jsnum \<Rightarrow> jsnum" where
  "Math_ceil (Num a) = Num (of_int \<lceil>a\<rceil>)"
| "Math_ceil x = x"


fun Math_min :: "jsnum \<Rightarrow> jsnum \<Rightarrow> jsnum" where
  "Math_min NaN _ = NaN"
| "Math_min _ NaN = NaN"
| "Math_min x y = (if y < x then y else x)"

text \<open>
  \<open>Math.pow\<close> is only ever called with the month count \<open>tenureYears * 12\<close> as its
  exponent; the tenure is a whole number of years (the callers read it with
  \<open>parseInt\<close>), so the exponent is a natural number and the power is the repeated
  product.  \<open>Math.pow(x, 0)\<close> is \<open>1\<close> for every \<open>x\<close>, \<open>NaN\<close> included.
\<close>

primrec Math_pow :: "jsnum \<Rightarrow> nat \<Rightarrow> jsnum" where
  "Math_pow x 0 = Num 1"
| "Math_pow x (Suc n) = x * Math_pow x n"

text \<open>The number a whole month or year count denotes.\<close>

definition of_count :: "nat \<Rightarrow> jsnum" where
  "of_count n = Num (real n)"

section \<open>Utility functions\<close>

definition roundToTwoDecimals :: "jsnum \<Rightarrow> jsnum" where
  "roundToTwoDecimals num = Math_round (num * Num 100) / Num 100"

section \<open>Monthly payment\<close>

record payment =
  monthlyPayment :: jsnum
  totalPayment :: jsnum
  totalInterest :: jsnum
  effectiveRate :: jsnum

definition calculateMonthlyPayment :: "jsnum \<Rightarrow> jsnum \<Rightarrow> nat \<Rightarrow> payment" where
  "calculateMonthlyPayment principal' annualRate tenureYears =
    (let monthlyRate = annualRate / Num 100 / Num 12;
         totalMonths = tenureYears * 12
     in if js_eq monthlyRate (Num 0) then
          \<lparr> monthlyPayment = principal' / of_count totalMonths,
            totalPayment = principal',
            totalInterest = Num 0,
            effectiveRate = Num 0 \<rparr>
        else
          let mp = principal' *
                     (monthlyRate * Math_pow (Num 1 + monthlyRate) totalMonths) /
                     (Math_pow (Num 1 + monthlyRate) totalMonths - Num 1);
              tp = mp * of_count totalMonths;
              ti = tp - principal'
          in \<lparr> monthlyPayment = roundToTwoDecimals mp,
               totalPayment = roundToTwoDecimals tp,
               totalInterest = roundToTwoDecimals ti,
               effectiveRate = roundToTwoDecimals ((ti / principal') * Num 100) \<rparr>)"

section \<open>Amortization schedule\<close>




section \<open>Extra payments\<close>









section \<open>Refinancing\<close>

record current_loan =
  cl_balance :: jsnum
  cl_rate :: jsnum
  remainingYears :: nat

record new_loan =
  nl_rate :: jsnum
  nl_tenureYears :: nat
  closingCosts :: jsnum

text \<open>A field that holds a number or a string (\<open>breakEvenMonths\<close> is a month count or \<open>'N/A'\<close>).\<close>

datatype js_value = JNum jsnum | JStr string

record current_figures =
  cf_monthlyPayment :: jsnum
  cf_totalInterest :: jsnum
  cf_totalPayment :: jsnum
  remainingMonths :: nat

record refinanced_figures =
  rf_monthlyPayment :: jsnum
  rf_totalInterest :: jsnum
  rf_totalPayment :: jsnum
  newTenureMonths :: nat
  rf_closingCosts :: jsnum

record comparison_figures =
  monthlyDifference :: jsnum
  totalInterestSaved :: jsnum
  breakEvenMonths :: js_value
  breakEvenYears :: js_value
  netSavings :: jsnum
  worthRefinancing :: bool

record refinancing =
  current :: current_figures
  refinanced :: refinanced_figures
  comparison :: comparison_figures

definition compareRefinancing :: "current_loan \<Rightarrow> new_loan \<Rightarrow> refinancing" where
  "compareRefinancing currentLoan newLoan =
    (let current' = calculateMonthlyPayment (cl_balance currentLoan) (cl_rate currentLoan)
                      (remainingYears currentLoan);
         newCalc = calculateMonthlyPayment (cl_balance currentLoan) (nl_rate newLoan)
                      (nl_tenureYears newLoan);
         monthlyDifference' = monthlyPayment current' - monthlyPayment newCalc;
         totalInterestDifference = totalInterest current' - totalInterest newCalc;
         breakEvenMonths' =
           (if Num 0 < monthlyDifference'
            then Math_ceil (closingCosts newLoan / monthlyDifference') else PInf);
         netSavings' = totalInterestDifference - closingCosts newLoan
     in \<lparr> current =
            \<lparr> cf_monthlyPayment = monthlyPayment current',
              cf_totalInterest = totalInterest current',
              cf_totalPayment = totalPayment current',
              remainingMonths = remainingYears currentLoan * 12 \<rparr>,
          refinanced =
            \<lparr> rf_monthlyPayment = monthlyPayment newCalc,
              rf_totalInterest = totalInterest newCalc,
              rf_totalPayment = totalPayment newCalc + closingCosts newLoan,
              newTenureMonths = nl_tenureYears newLoan * 12,
              rf_closingCosts = closingCosts newLoan \<rparr>,
          comparison =
            \<lparr> monthlyDifference = roundToTwoDecimals monthlyDifference',
              totalInterestSaved = roundToTwoDecimals totalInterestDifference,
              breakEvenMonths =
                (if js_eq breakEvenMonths' PInf then JStr ''N/A'' else JNum breakEvenMonths'),
              breakEvenYears =
                (if js_eq breakEvenMonths' PInf then JStr ''N/A''
                 else JNum (roundToTwoDecimals (breakEvenMonths' / Num 12))),
              netSavings = roundToTwoDecimals netSavings',
              worthRefinancing =
                (Num 0 < netSavings' \<and>
                 breakEvenMonths' < of_count (nl_tenureYears newLoan * 12)) \<rparr> \<rparr>)"

section \<open>Stamp duty on the transfer (MOT)\<close>

record tier =
  tier_min :: jsnum
  tier_max :: jsnum
  tier_rate :: jsnum

record first_time_buyer_exemption =
  ftb_maxPrice :: jsnum
  ftb_exemptionRate :: jsnum

record hoc_exemption =
  hoc_minPrice :: jsnum
  hoc_maxPrice :: jsnum
  hoc_exemptionRate :: jsnum

record stamp_duty_mot =
  standard :: "tier list"
  firstTimeBuyerExemption :: first_time_buyer_exemption
  hocExemption :: hoc_exemption

definition STAMP_DUTY_MOT :: stamp_duty_mot where
  "STAMP_DUTY_MOT =
    \<lparr> standard =
        [ \<lparr> tier_min = Num 0, tier_max = Num 100000, tier_rate = Num (1 / 100) \<rparr>,
          \<lparr> tier_min = Num 100000, tier_max = Num 500000, tier_rate = Num (2 / 100) \<rparr>,
          \<lparr> tier_min = Num 500000, tier_max = Num 1000000, tier_rate = Num (3 / 100) \<rparr>,
          \<lparr> tier_min = Num 1000000, tier_max = PInf, tier_rate = Num (4 / 100) \<rparr> ],
      firstTimeBuyerExemption = \<lparr> ftb_maxPrice = Num 500000, ftb_exemptionRate = Num 1 \<rparr>,
      hocExemption =
        \<lparr> hoc_minPrice = Num 300000, hoc_maxPrice = Num 2500000,
          hoc_exemptionRate = Num (75 / 100) \<rparr> \<rparr>"

text \<open>
  One entry of the breakdown.  The two display strings of the source are kept as the
  numbers they are printed from: \<open>range\<close> as the pair \<open>(tierMin, tierMax)\<close> and \<open>rate\<close>
  as the number \<open>tier.rate * 100\<close> (the percentage).
\<close>

record breakdown_entry =
  bd_range :: "jsnum \<times> jsnum"
  bd_rate :: jsnum
  taxableAmount :: jsnum
  duty :: jsnum

text \<open>
  The loop over the tiers, on the loop variables \<open>(stampDuty, remainingValue, breakdown)\<close>;
  \<open>break\<close> leaves them as they are.
\<close>

fun mot_tiers ::
  "tier list \<Rightarrow> jsnum \<times> jsnum \<times> breakdown_entry list \<Rightarrow> jsnum \<times> jsnum \<times> breakdown_entry list"
where
  "mot_tiers [] st = st"
| "mot_tiers (tier # tiers) (stampDuty, remainingValue, breakdown) =
    (if remainingValue \<le> Num 0 then (stampDuty, remainingValue, breakdown)
     else
       (let tierMin = tier_min tier;
            tierMax = tier_max tier;
            tierRange = tierMax - tierMin;
            taxableAmount' = Math_min remainingValue tierRange;
            tierDuty = taxableAmount' * tier_rate tier
        in mot_tiers tiers
             (stampDuty + tierDuty,
              remainingValue - taxableAmount',
              breakdown @
                [\<lparr> bd_range = (tierMin, tierMax),
                   bd_rate = tier_rate tier * Num 100,
                   taxableAmount = roundToTwoDecimals taxableAmount',
                   duty = roundToTwoDecimals tierDuty \<rparr>])))"

record stamp_duty =
  grossStampDuty :: jsnum
  exemption :: jsnum
  exemptionNote :: string
  netStampDuty :: jsnum
  breakdown :: "breakdown_entry list"

text \<open>
  The note of the first exemption holds the sign \<open>\<le>\<close>, three bytes in UTF-8.
\<close>

definition firstTimeBuyerNote :: string where
  "firstTimeBuyerNote =
    ''First-time buyer exemption (100% for property '' @
    [CHR 0xE2, CHR 0x89, CHR 0xA4] @ '' RM500,000)''"

definition hocNote :: string where
  "hocNote = ''Home Ownership Campaign exemption (75%)''"

definition calculateStampDutyMOT :: "jsnum \<Rightarrow> bool \<Rightarrow> bool \<Rightarrow> stamp_duty" where
  "calculateStampDutyMOT propertyPrice isFirstTimeBuyer applyHOC =
    (case mot_tiers (standard STAMP_DUTY_MOT) (Num 0, propertyPrice, []) of
       (stampDuty, remainingValue, breakdown') \<Rightarrow>
         (let (exemption', exemptionNote') =
                (if isFirstTimeBuyer \<and>
                    propertyPrice \<le> ftb_maxPrice (firstTimeBuyerExemption STAMP_DUTY_MOT)
                 then (stampDuty * ftb_exemptionRate (firstTimeBuyerExemption STAMP_DUTY_MOT),
                       firstTimeBuyerNote)
                 else if applyHOC \<and>
                    hoc_minPrice (hocExemption STAMP_DUTY_MOT) \<le> propertyPrice \<and>
                    propertyPrice \<le> hoc_maxPrice (hocExemption STAMP_DUTY_MOT)
                 then (stampDuty * hoc_exemptionRate (hocExemption STAMP_DUTY_MOT), hocNote)
                 else (Num 0, []))
          in \<lparr> grossStampDuty = roundToTwoDecimals stampDuty,
               exemption = roundToTwoDecimals exemption',
               exemptionNote = exemptionNote',
               netStampDuty = roundToTwoDecimals (stampDuty - exemption'),
               breakdown = breakdown' \<rparr>))"

section \<open>Islamic financing: Musharakah Mutanaqisah\<close>

record mm_financing =
  mm_type :: string
  propertyValue :: jsnum
  customerInitialShare :: jsnum
  bankShare :: jsnum
  rentalRate :: jsnum
  mm_monthlyPayment :: jsnum
  mm_totalPayment :: jsnum
  totalRental :: jsnum
  mm_tenureYears :: nat
  mm_totalMonths :: nat
  mm_note :: string

definition calculateIslamicMM :: "jsnum \<Rightarrow> jsnum \<Rightarrow> jsnum \<Rightarrow> nat \<Rightarrow> mm_financing" where
  "calculateIslamicMM principal' customerContribution rentalRate' tenureYears =
    (let bankShare' = principal' - customerContribution;
         totalMonths = tenureYears * 12;
         monthlyRate = rentalRate' / Num 100 / Num 12;
         mp = bankShare' *
                (monthlyRate * Math_pow (Num 1 + monthlyRate) totalMonths) /
                (Math_pow (Num 1 + monthlyRate) totalMonths - Num 1);
         tp = mp * of_count totalMonths;
         tr = tp - bankShare'
     in \<lparr> mm_type = ''Musharakah Mutanaqisah'',
          propertyValue = roundToTwoDecimals principal',
          customerInitialShare = roundToTwoDecimals customerContribution,
          bankShare = roundToTwoDecimals bankShare',
          rentalRate = rentalRate',
          mm_monthlyPayment = roundToTwoDecimals mp,
          mm_totalPayment = roundToTwoDecimals tp,
          totalRental = roundToTwoDecimals tr,
          mm_tenureYears = tenureYears,
          mm_totalMonths = totalMonths,
          mm_note = ''Customer gradually acquires bank's share. Rebate possible for early settlement.'' \<rparr>)"

section \<open>Notions of the specification\<close>


definition round_half_up_2dp :: "real \<Rightarrow> real" where
  "round_half_up_2dp x = of_int \<lfloor>x * 100 + 1 / 2\<rfloor> / 100"


definition approx_eq :: "real \<Rightarrow> jsnum \<Rightarrow> jsnum \<Rightarrow> bool" where
  "approx_eq tol x y = (case (x, y) of (Num a, Num b) \<Rightarrow> \<bar>a - b\<bar> \<le> tol | _ \<Rightarrow> False)"


section \<open>Facts about the number model\<close>

lemma minus_Num [simp]: "Num a - Num b = Num (a - b)"
  by (simp add: minus_jsnum_def)

lemma divide_Num [simp]: "b \<noteq> 0 \<Longrightarrow> Num a / Num b = Num (a / b)"
  by simp

lemma Math_pow_Num [simp]: "Math_pow (Num a) n = Num (a ^ n)"
  by (induction n) simp_all

lemma js_eq_Num [simp]: "js_eq (Num a) (Num b) = (a = b)"
  by (simp add: js_eq_def)

lemma roundToTwoDecimals_Num:
  "roundToTwoDecimals (Num a) = Num (of_int \<lfloor>a * 100 + 1 / 2\<rfloor> / 100)"
  by (simp add: roundToTwoDecimals_def)

lemma roundToTwoDecimals_NaN [simp]: "roundToTwoDecimals NaN = NaN"
  by (simp add: roundToTwoDecimals_def)

lemma approx_eq_Num [simp]: "approx_eq tol (Num a) (Num b) = (\<bar>a - b\<bar> \<le> tol)"
  by (simp add: approx_eq_def)

lemma le_zero_not_pos: "x \<le> Num 0 \<Longrightarrow> \<not> Num 0 < x"
  by (cases x) simp_all

lemma ceil_quotient_finite: "Num 0 < x \<Longrightarrow> \<not> js_eq (Math_ceil (Num c / x)) PInf"
  by (cases x) (simp_all add: js_eq_def)

section \<open>Rounding to two decimals\<close>

lemma roundToTwoDecimals_half_up: "roundToTwoDecimals (Num x) = Num (round_half_up_2dp x)"
  by (simp add: roundToTwoDecimals_def round_half_up_2dp_def)



lemma round_half_up_2dp_add_int:
  "round_half_up_2dp (of_int k + y) = of_int k + round_half_up_2dp y"
proof -
  have "(of_int k + y) * 100 + 1 / 2 = (y * 100 + 1 / 2) + of_int (k * 100)"
    by (simp add: algebra_simps)
  then have "\<lfloor>(of_int k + y) * 100 + 1 / 2\<rfloor> = \<lfloor>y * 100 + 1 / 2\<rfloor> + k * 100"
    by (simp only: floor_add_int)
  then show ?thesis
    by (simp add: round_half_up_2dp_def field_simps)
qed

lemma round_half_up_2dp_of_int [simp]: "round_half_up_2dp (of_int k) = of_int k"
  using round_half_up_2dp_add_int [of k 0] by (simp add: round_half_up_2dp_def)

lemma round_half_up_2dp_numeral [simp]: "round_half_up_2dp (numeral k) = numeral k"
  using round_half_up_2dp_of_int [of "numeral k"] by simp

lemma round_half_up_2dp_zero [simp]: "round_half_up_2dp 0 = 0"
  using round_half_up_2dp_of_int [of 0] by simp




section \<open>The annuity payment\<close>








section \<open>Worked payments\<close>




lemma payment_1000_12_1:
  "calculateMonthlyPayment (Num 1000) (Num 12) 1 =
     \<lparr> monthlyPayment = Num (8885 / 100), totalPayment = Num (106619 / 100),
       totalInterest = Num (6619 / 100), effectiveRate = Num (662 / 100) \<rparr>"
  by (simp add: calculateMonthlyPayment_def of_count_def Let_def roundToTwoDecimals_Num
      power_divide)

lemma payment_1000_6_1:
  "calculateMonthlyPayment (Num 1000) (Num 6) 1 =
     \<lparr> monthlyPayment = Num (8607 / 100), totalPayment = Num (103280 / 100),
       totalInterest = Num (3280 / 100), effectiveRate = Num (328 / 100) \<rparr>"
  by (simp add: calculateMonthlyPayment_def of_count_def Let_def roundToTwoDecimals_Num
      power_divide)


section \<open>The monthly payment at a positive rate\<close>




section \<open>How the outputs are rounded\<close>




section \<open>The monthly payment at rate zero\<close>

text \<open>
  C6. For every principal \<open>\<ge> 0\<close> and tenure \<open>> 0\<close>, \<open>calculateMonthlyPayment\<close> with
  annual rate 0 returns \<open>monthlyPayment = principal / (tenure * 12)\<close> exactly (not
  rounded), \<open>totalPayment = principal\<close>, \<open>totalInterest = 0\<close> and \<open>effectiveRate = 0\<close>.
\<close>

theorem calculateMonthlyPayment_zero_rate:
  assumes "0 \<le> p" and "0 < t"
  shows "calculateMonthlyPayment (Num p) (Num 0) t =
           \<lparr> monthlyPayment = Num (p / real (t * 12)),
             totalPayment = Num p,
             totalInterest = Num 0,
             effectiveRate = Num 0 \<rparr>"
  using assms by (simp add: calculateMonthlyPayment_def of_count_def Let_def)

theorem calculateMonthlyPayment_zero_rate_witness:
  "calculateMonthlyPayment (Num 120000) (Num 0) 10 =
     \<lparr> monthlyPayment = Num 1000, totalPayment = Num 120000,
       totalInterest = Num 0, effectiveRate = Num 0 \<rparr>"
  using calculateMonthlyPayment_zero_rate [of 120000 10] by simp

section \<open>The amortization schedule\<close>











section \<open>Extra payments: one month of the simulation\<close>







section \<open>Extra payments: termination\<close>







section \<open>Refinancing: break-even and worth\<close>

text \<open>
  C7. Let \<open>monthlyDifference\<close> be the current payment minus the proposed payment and
  \<open>netSavings\<close> the interest difference minus the closing costs (both before rounding, as
  the code tests them), the closing costs being a finite number.  Whenever
  \<open>monthlyDifference \<le> 0\<close>, \<open>breakEvenMonths\<close> is the string \<open>'N/A'\<close> (not a number) and
  \<open>worthRefinancing\<close> is false whatever \<open>netSavings\<close> is; whenever \<open>monthlyDifference > 0\<close>,
  \<open>breakEvenMonths\<close> is \<open>ceil (closingCosts / monthlyDifference)\<close> and \<open>worthRefinancing\<close>
  holds exactly when \<open>netSavings > 0\<close> and \<open>breakEvenMonths\<close> is below the proposed tenure
  in months.
\<close>

theorem compareRefinancing_break_even:
  assumes "closingCosts newLoan = Num c"
  shows "let res = compareRefinancing currentLoan newLoan;
             md = cf_monthlyPayment (current res) - rf_monthlyPayment (refinanced res);
             ns = (cf_totalInterest (current res) - rf_totalInterest (refinanced res))
                    - closingCosts newLoan
         in (md \<le> Num 0 \<longrightarrow>
               breakEvenMonths (comparison res) = JStr ''N/A'' \<and>
               \<not> worthRefinancing (comparison res))
          \<and> (Num 0 < md \<longrightarrow>
               breakEvenMonths (comparison res) = JNum (Math_ceil (closingCosts newLoan / md)) \<and>
               worthRefinancing (comparison res) =
                 (Num 0 < ns \<and>
                  Math_ceil (closingCosts newLoan / md)
                    < of_count (nl_tenureYears newLoan * 12)))"
proof -
  define md where "md =
    monthlyPayment (calculateMonthlyPayment (cl_balance currentLoan) (cl_rate currentLoan)
      (remainingYears currentLoan))
    - monthlyPayment (calculateMonthlyPayment (cl_balance currentLoan) (nl_rate newLoan)
      (nl_tenureYears newLoan))"
  have neg: "md \<le> Num 0 \<Longrightarrow> \<not> Num 0 < md"
    by (rule le_zero_not_pos)
  have fin: "Num 0 < md \<Longrightarrow> \<not> js_eq (Math_ceil (Num c / md)) PInf"
    by (rule ceil_quotient_finite)
  show ?thesis
    using neg fin
    by (auto simp add: compareRefinancing_def Let_def assms js_eq_def of_count_def
        simp flip: md_def)
qed

theorem compareRefinancing_break_even_witness:
  "breakEvenMonths (comparison (compareRefinancing
      \<lparr> cl_balance = Num 1000, cl_rate = Num 12, remainingYears = 1 \<rparr>
      \<lparr> nl_rate = Num 6, nl_tenureYears = 1, closingCosts = Num 10 \<rparr>)) = JNum (Num 4)
 \<and> worthRefinancing (comparison (compareRefinancing
      \<lparr> cl_balance = Num 1000, cl_rate = Num 12, remainingYears = 1 \<rparr>
      \<lparr> nl_rate = Num 6, nl_tenureYears = 1, closingCosts = Num 10 \<rparr>))
 \<and> breakEvenMonths (comparison (compareRefinancing
      \<lparr> cl_balance = Num 1000, cl_rate = Num 6, remainingYears = 1 \<rparr>
      \<lparr> nl_rate = Num 12, nl_tenureYears = 1, closingCosts = Num 10 \<rparr>)) = JStr ''N/A''
 \<and> \<not> worthRefinancing (comparison (compareRefinancing
      \<lparr> cl_balance = Num 1000, cl_rate = Num 6, remainingYears = 1 \<rparr>
      \<lparr> nl_rate = Num 12, nl_tenureYears = 1, closingCosts = Num 10 \<rparr>))"
proof -
  have cur: "current (compareRefinancing
      \<lparr> cl_balance = Num 1000, cl_rate = Num 12, remainingYears = 1 \<rparr>
      \<lparr> nl_rate = Num 6, nl_tenureYears = 1, closingCosts = Num 10 \<rparr>) =
      \<lparr> cf_monthlyPayment = Num (8885 / 100), cf_totalInterest = Num (6619 / 100),
        cf_totalPayment = Num (106619 / 100), remainingMonths = 12 \<rparr>"
    and new: "refinanced (compareRefinancing
      \<lparr> cl_balance = Num 1000, cl_rate = Num 12, remainingYears = 1 \<rparr>
      \<lparr> nl_rate = Num 6, nl_tenureYears = 1, closingCosts = Num 10 \<rparr>) =
      \<lparr> rf_monthlyPayment = Num (8607 / 100), rf_totalInterest = Num (3280 / 100),
        rf_totalPayment = Num (104280 / 100), newTenureMonths = 12,
        rf_closingCosts = Num 10 \<rparr>"
    and cur': "current (compareRefinancing
      \<lparr> cl_balance = Num 1000, cl_rate = Num 6, remainingYears = 1 \<rparr>
      \<lparr> nl_rate = Num 12, nl_tenureYears = 1, closingCosts = Num 10 \<rparr>) =
      \<lparr> cf_monthlyPayment = Num (8607 / 100), cf_totalInterest = Num (3280 / 100),
        cf_totalPayment = Num (103280 / 100), remainingMonths = 12 \<rparr>"
    and new': "refinanced (compareRefinancing
      \<lparr> cl_balance = Num 1000, cl_rate = Num 6, remainingYears = 1 \<rparr>
      \<lparr> nl_rate = Num 12, nl_tenureYears = 1, closingCosts = Num 10 \<rparr>) =
      \<lparr> rf_monthlyPayment = Num (8885 / 100), rf_totalInterest = Num (6619 / 100),
        rf_totalPayment = Num (107619 / 100), newTenureMonths = 12,
        rf_closingCosts = Num 10 \<rparr>"
    unfolding compareRefinancing_def Let_def
    by (simp_all add: payment_1000_12_1 payment_1000_6_1 flip: One_nat_def)
  show ?thesis
    using compareRefinancing_break_even
        [of "\<lparr> nl_rate = Num 6, nl_tenureYears = 1, closingCosts = Num 10 \<rparr>" 10
          "\<lparr> cl_balance = Num 1000, cl_rate = Num 12, remainingYears = 1 \<rparr>"]
      compareRefinancing_break_even
        [of "\<lparr> nl_rate = Num 12, nl_tenureYears = 1, closingCosts = Num 10 \<rparr>" 10
          "\<lparr> cl_balance = Num 1000, cl_rate = Num 6, remainingYears = 1 \<rparr>"]
    unfolding Let_def cur new cur' new'
    by (simp add: of_count_def)
qed

section \<open>Stamp duty on the transfer: the tiers\<close>

lemma mot_standard:
  "mot_tiers (standard STAMP_DUTY_MOT) (Num 0, Num p, []) =
    (if p \<le> 0 then (Num 0, Num p, [])
     else if p \<le> 100000 then
       (Num (p / 100), Num 0,
        [\<lparr>bd_range = (Num 0, Num 100000), bd_rate = Num 1,
          taxableAmount = Num (round_half_up_2dp p),
          duty = Num (round_half_up_2dp (p / 100))\<rparr>])
     else if p \<le> 500000 then
       (Num (1000 + (p - 100000) / 50), Num 0,
        [\<lparr>bd_range = (Num 0, Num 100000), bd_rate = Num 1,
          taxableAmount = Num 100000, duty = Num 1000\<rparr>,
         \<lparr>bd_range = (Num 100000, Num 500000), bd_rate = Num 2,
          taxableAmount = Num (round_half_up_2dp (p - 100000)),
          duty = Num (round_half_up_2dp ((p - 100000) / 50))\<rparr>])
     else if p \<le> 1000000 then
       (Num (9000 + (p - 500000) * 3 / 100), Num 0,
        [\<lparr>bd_range = (Num 0, Num 100000), bd_rate = Num 1,
          taxableAmount = Num 100000, duty = Num 1000\<rparr>,
         \<lparr>bd_range = (Num 100000, Num 500000), bd_rate = Num 2,
          taxableAmount = Num 400000, duty = Num 8000\<rparr>,
         \<lparr>bd_range = (Num 500000, Num 1000000), bd_rate = Num 3,
          taxableAmount = Num (round_half_up_2dp (p - 500000)),
          duty = Num (round_half_up_2dp ((p - 500000) * 3 / 100))\<rparr>])
     else
       (Num (24000 + (p - 1000000) / 25), Num 0,
        [\<lparr>bd_range = (Num 0, Num 100000), bd_rate = Num 1,
          taxableAmount = Num 100000, duty = Num 1000\<rparr>,
         \<lparr>bd_range = (Num 100000, Num 500000), bd_rate = Num 2,
          taxableAmount = Num 400000, duty = Num 8000\<rparr>,
         \<lparr>bd_range = (Num 500000, Num 1000000), bd_rate = Num 3,
          taxableAmount = Num 500000, duty = Num 15000\<rparr>,
         \<lparr>bd_range = (Num 1000000, PInf), bd_rate = Num 4,
          taxableAmount = Num (round_half_up_2dp (p - 1000000)),
          duty = Num (round_half_up_2dp ((p - 1000000) / 25))\<rparr>]))"
  by (simp add: STAMP_DUTY_MOT_def Let_def roundToTwoDecimals_half_up minus_jsnum_def)


section \<open>Stamp duty on the transfer: the exemptions\<close>

lemma mot_standard_finite:
  "\<exists>d r bd. mot_tiers (standard STAMP_DUTY_MOT) (Num 0, Num p, []) = (Num d, r, bd)"
proof -
  have "fst (mot_tiers (standard STAMP_DUTY_MOT) (Num 0, Num p, [])) \<notin> {PInf, NInf, NaN}"
    by (simp add: mot_standard)
  then show ?thesis
    by (cases "mot_tiers (standard STAMP_DUTY_MOT) (Num 0, Num p, [])";
        cases "fst (mot_tiers (standard STAMP_DUTY_MOT) (Num 0, Num p, []))") auto
qed

text \<open>
  C9. At most one exemption applies.  For a first-time buyer and a price of at most
  500000 the exemption is the whole gross duty, \<open>netStampDuty\<close> is \<open>0\<close> and the note is
  the first-time buyer's, whether or not \<open>applyHOC\<close> holds and the price lies in the
  campaign's band.  Only otherwise, when \<open>applyHOC\<close> holds and the price lies between
  300000 and 2500000, the exemption is 75% of the duty.  In every other case there is no
  exemption.
\<close>

theorem stamp_duty_single_exemption:
  "(let res = calculateStampDutyMOT (Num p) isFirstTimeBuyer applyHOC;
        stampDuty = fst (mot_tiers (standard STAMP_DUTY_MOT) (Num 0, Num p, []))
    in if isFirstTimeBuyer \<and> p \<le> 500000 then
         exemption res = grossStampDuty res \<and> netStampDuty res = Num 0 \<and>
         exemptionNote res = firstTimeBuyerNote
       else if applyHOC \<and> 300000 \<le> p \<and> p \<le> 2500000 then
         exemption res = roundToTwoDecimals (stampDuty * Num (75 / 100)) \<and>
         netStampDuty res = roundToTwoDecimals (stampDuty - stampDuty * Num (75 / 100)) \<and>
         exemptionNote res = hocNote
       else
         exemption res = Num 0 \<and> netStampDuty res = grossStampDuty res \<and>
         exemptionNote res = [])"
proof -
  obtain d r bd where m: "mot_tiers (standard STAMP_DUTY_MOT) (Num 0, Num p, []) = (Num d, r, bd)"
    using mot_standard_finite by blast
  show ?thesis
    unfolding calculateStampDutyMOT_def m
    by (simp add: STAMP_DUTY_MOT_def Let_def roundToTwoDecimals_half_up)
qed

section \<open>Musharakah Mutanaqisah at rate zero\<close>

text \<open>
  C10. \<open>calculateIslamicMM\<close> has no zero-rate guard: at \<open>rentalRate = 0\<close>, for every
  tenure \<open>> 0\<close> and bank share \<open>> 0\<close>, the formula divides \<open>0\<close> by \<open>(1+0)\<^sup>n - 1 = 0\<close>
  and \<open>monthlyPayment\<close>, \<open>totalPayment\<close> and \<open>totalRental\<close> are all \<open>NaN\<close>, while
  \<open>calculateMonthlyPayment\<close> on the same share returns \<open>share / (tenure * 12)\<close>.
\<close>

theorem calculateIslamicMM_zero_rate_NaN:
  assumes "0 < t" and "cc < pv"
  shows "mm_monthlyPayment (calculateIslamicMM (Num pv) (Num cc) (Num 0) t) = NaN
       \<and> mm_totalPayment (calculateIslamicMM (Num pv) (Num cc) (Num 0) t) = NaN
       \<and> totalRental (calculateIslamicMM (Num pv) (Num cc) (Num 0) t) = NaN
       \<and> monthlyPayment (calculateMonthlyPayment (Num (pv - cc)) (Num 0) t)
             = Num ((pv - cc) / real (t * 12))"
  using assms
  by (simp add: calculateIslamicMM_def calculateMonthlyPayment_def of_count_def Let_def
      minus_jsnum_def)

theorem calculateIslamicMM_zero_rate_NaN_witness:
  "mm_monthlyPayment (calculateIslamicMM (Num 500000) (Num 50000) (Num 0) 30) = NaN
 \<and> mm_totalPayment (calculateIslamicMM (Num 500000) (Num 50000) (Num 0) 30) = NaN
 \<and> totalRental (calculateIslamicMM (Num 500000) (Num 50000) (Num 0) 30) = NaN
 \<and> monthlyPayment (calculateMonthlyPayment (Num 450000) (Num 0) 30) = Num 1250"
  using calculateIslamicMM_zero_rate_NaN [of 30 50000 500000] by simp

end
